theory Spec2Isabelle
  imports Complex_Main
begin

section \<open>Values and exceptions shared by both scripts\<close>

text \<open>
  Both scripts work on arrays of floating-point numbers.  A one-dimensional array is
  modelled as a list of reals: the floating-point values are idealised to the reals
  they denote, so rounding, infinities and NaN are outside the model.  A Python
  exception is a value of \<open>py_exception\<close>; a call that can raise returns
  \<open>py_exception + 'a\<close>, with \<open>Inl\<close> for the exception.  \<open>External name\<close>
  stands for any exception raised inside a library the scripts only call.
\<close>

type_synonym tensor = "real list"

datatype py_exception =
    IndexError
  | ValueError
  | AssertionError string
  | External string

text \<open>Python's \<open>xs[i]\<close> for a non-negative index: out of range raises IndexError.\<close>

definition getitem :: "'a list \<Rightarrow> nat \<Rightarrow> py_exception + 'a" where
  "getitem xs i = (if i < length xs then Inr (xs ! i) else Inl IndexError)"

section \<open>tflitehub/mobilenet\_v3\_test.py\<close>

subsection \<open>The numpy calls of line 15\<close>

text \<open>
  \<open>numpy.isclose(a, b, rtol=1e-05, atol=1e-08)\<close> is documented as the elementwise test
  \<open>absolute(a - b) <= (atol + rtol * absolute(b))\<close> on the two arrays broadcast against
  each other.  For one-dimensional arrays broadcasting succeeds when the lengths agree
  or one of them is 1, and raises ValueError otherwise.
\<close>

definition within_tol :: "real \<Rightarrow> real \<Rightarrow> real \<Rightarrow> real \<Rightarrow> bool" where
  "within_tol rtol atol x y \<longleftrightarrow> \<bar>x - y\<bar> \<le> atol + rtol * \<bar>y\<bar>"

definition broadcast2 :: "tensor \<Rightarrow> tensor \<Rightarrow> py_exception + (real \<times> real) list" where
  "broadcast2 a b =
     (if length a = length b then Inr (zip a b)
      else if length a = 1 then Inr (zip (replicate (length b) (hd a)) b)
      else if length b = 1 then Inr (zip a (replicate (length a) (hd b)))
      else Inl ValueError)"

definition isclose :: "tensor \<Rightarrow> tensor \<Rightarrow> real \<Rightarrow> real \<Rightarrow> py_exception + bool list" where
  "isclose a b rtol atol =
     (case broadcast2 a b of
        Inl e \<Rightarrow> Inl e
      | Inr ps \<Rightarrow> Inr (map (\<lambda>(x, y). within_tol rtol atol x y) ps))"

text \<open>The default \<open>rtol\<close> of \<open>numpy.isclose\<close>, used because line 15 passes only \<open>atol\<close>.\<close>

definition rtol_default :: real where
  "rtol_default = 1 / 10 ^ 5"

text \<open>\<open>ndarray.all()\<close>: true on the empty array.\<close>

definition ndarray_all :: "bool list \<Rightarrow> bool" where
  "ndarray_all m = list_all (\<lambda>c. c) m"

text \<open>\<open>unittest\<close>'s \<open>assertTrue\<close> with no message of the caller's.\<close>

definition assertTrue :: "bool \<Rightarrow> py_exception + unit" where
  "assertTrue c = (if c then Inr () else Inl (AssertionError ''False is not true''))"

subsection \<open>MobilenetV3Test.compare\_results\<close>

text \<open>
  Line 15, with the value of the keyword argument \<open>atol\<close> as a parameter:
  \<open>self.assertTrue(numpy.isclose(iree_results[0], tflite_results[0], atol=...).all())\<close>.
\<close>

definition closeness_assertion ::
    "real \<Rightarrow> tensor list \<Rightarrow> tensor list \<Rightarrow> py_exception + unit" where
  "closeness_assertion atol iree_results tflite_results =
     (case getitem iree_results 0 of
        Inl e \<Rightarrow> Inl e
      | Inr a \<Rightarrow>
          (case getitem tflite_results 0 of
             Inl e \<Rightarrow> Inl e
           | Inr b \<Rightarrow>
               (case isclose a b rtol_default atol of
                  Inl e \<Rightarrow> Inl e
                | Inr m \<Rightarrow> assertTrue (ndarray_all m))))"

text \<open>
  Lines 13 to 15.  The superclass \<open>test_util.TFLiteModelTest\<close> is not among the source
  files, so its \<open>compare_results\<close> is the parameter \<open>super_compare_results\<close>: it
  returns normally or raises.  The subclass then asserts closeness at \<open>atol=1e-4\<close>,
  the literal being read as the real number \<open>1 / 10 ^ 4\<close>.
\<close>

definition compare_results ::
    "(tensor list \<Rightarrow> tensor list \<Rightarrow> 'd \<Rightarrow> py_exception + unit) \<Rightarrow>
     tensor list \<Rightarrow> tensor list \<Rightarrow> 'd \<Rightarrow> py_exception + unit" where
  "compare_results super_compare_results iree_results tflite_results details =
     (case super_compare_results iree_results tflite_results details of
        Inl e \<Rightarrow> Inl e
      | Inr _ \<Rightarrow> closeness_assertion (1 / 10 ^ 4) iree_results tflite_results)"

text \<open>
  Modelled from the spec: the Comparison Result's "maximum observed elementwise
  deviation".  No source file computes it (the superclass that may log it is missing);
  it is the largest \<open>|x - y|\<close> over the paired elements, 0 for empty arrays.
\<close>

definition max_abs_deviation :: "tensor \<Rightarrow> tensor \<Rightarrow> real" where
  "max_abs_deviation a b = fold max (map (\<lambda>(x, y). \<bar>x - y\<bar>) (zip a b)) 0"

section \<open>iree-torch/torchscript\_resnet18\_e2e.py\<close>

subsection \<open>Calls, the standard streams and the call trace\<close>

text \<open>
  Python passes the tensor \<open>img\<close> by reference, and \<open>img.numpy()\<close> is a view of the
  same memory, so a callee can change what the next callee reads.  A callable is
  therefore modelled on the contents of its argument: it returns its result (or the
  exception it raises) together with the contents it leaves behind.
\<close>

type_synonym ('a, 'r) callable = "'a \<Rightarrow> (py_exception + 'r) \<times> 'a"

datatype printed = Line string | Top3 "(string \<times> real) list"

text \<open>
  The trace is ghost state: it records each load of the image and the contents each
  inference function was called on, in order.
\<close>

datatype 'i event = Load_image string | Call_torch_func 'i | Call_jit_func 'i

record 'i io =
  stdout :: "printed list"
  stderr :: "string list"
  trace :: "'i event list"

subsection \<open>top3\_possibilities and predictions\<close>

text \<open>
  \<open>torch.sort(res, descending=True)\<close> sorts each row of the two-dimensional \<open>res\<close> and
  returns the sorted values and their indices; only the indices are used.  The order
  of equal scores is left open by torch; the model keeps the smaller index first.
\<close>

definition argsort_descending :: "real list \<Rightarrow> nat list" where
  "argsort_descending row = sort_key (\<lambda>i. - (row ! i)) [0..<length row]"

text \<open>\<open>torch.nn.functional.softmax\<close> along a row.\<close>

definition softmax :: "real list \<Rightarrow> real list" where
  "softmax row = map (\<lambda>x. exp x / sum_list (map exp row)) row"

text \<open>A list comprehension whose element expression can raise: the first exception wins.\<close>

primrec comprehension :: "('a \<Rightarrow> py_exception + 'b) \<Rightarrow> 'a list \<Rightarrow> py_exception + 'b list" where
  "comprehension f [] = Inr []"
| "comprehension f (x # xs) =
     (case f x of
        Inl e \<Rightarrow> Inl e
      | Inr y \<Rightarrow> (case comprehension f xs of Inl e \<Rightarrow> Inl e | Inr ys \<Rightarrow> Inr (y # ys)))"

text \<open>
  Lines 48 to 52.  \<open>labels\<close> is the module-level global of line 135, read by the
  function body; it is the first parameter here.
\<close>

definition top3_possibilities ::
    "string list \<Rightarrow> real list list \<Rightarrow> py_exception + (string \<times> real) list" where
  "top3_possibilities labels res =
     (let indexes = map argsort_descending res in
      case getitem (map softmax res) 0 of
        Inl e \<Rightarrow> Inl e
      | Inr p \<Rightarrow>
          (let percentage = map (\<lambda>v. v * 100) p in
           case getitem indexes 0 of
             Inl e \<Rightarrow> Inl e
           | Inr row \<Rightarrow>
               comprehension
                 (\<lambda>idx. case getitem labels idx of
                          Inl e \<Rightarrow> Inl e
                        | Inr l \<Rightarrow>
                            (case getitem percentage idx of
                               Inl e \<Rightarrow> Inl e
                             | Inr v \<Rightarrow> Inr (l, v)))
                 (take 3 row)))"

text \<open>
  Lines 55 to 61.  \<open>global_labels\<close> is the global that \<open>top3_possibilities\<close> reads; the
  parameter \<open>labels\<close> of \<open>predictions\<close> is never used by its body.  \<open>jit_func\<close> is
  called on \<open>img.numpy()\<close>, the same memory as \<open>img\<close>, and \<open>torch.from_numpy\<close> only
  rewraps its result.  The result of the model is the outcome, the contents of \<open>img\<close>
  afterwards and the streams.
\<close>

definition predictions ::
    "string list \<Rightarrow> ('i, real list list) callable \<Rightarrow> ('i, real list list) callable \<Rightarrow>
     'i \<Rightarrow> string list \<Rightarrow> 'i io \<Rightarrow> (py_exception + unit) \<times> 'i \<times> 'i io" where
  "predictions global_labels torch_func jit_func img labels io0 =
     (let (r1, img1) = torch_func img;
          io1 = io0\<lparr>trace := trace io0 @ [Call_torch_func img]\<rparr>
      in case r1 of
           Inl e \<Rightarrow> (Inl e, img1, io1)
         | Inr res1 \<Rightarrow>
             (case top3_possibilities global_labels res1 of
                Inl e \<Rightarrow> (Inl e, img1, io1)
              | Inr golden_prediction \<Rightarrow>
                  (let io2 = io1\<lparr>stdout := stdout io1 @
                               [Line ''PyTorch prediction'', Top3 golden_prediction]\<rparr>;
                       (r2, img2) = jit_func img1;
                       io3 = io2\<lparr>trace := trace io2 @ [Call_jit_func img1]\<rparr>
                   in case r2 of
                        Inl e \<Rightarrow> (Inl e, img2, io3)
                      | Inr res2 \<Rightarrow>
                          (case top3_possibilities global_labels res2 of
                             Inl e \<Rightarrow> (Inl e, img2, io3)
                           | Inr prediction \<Rightarrow>
                               (Inr (), img2,
                                io3\<lparr>stdout := stdout io3 @
                                   [Line ''torch-mlir prediction'', Top3 prediction]\<rparr>)))))"

subsection \<open>IREEInvoker\<close>

text \<open>
  Lines 89 to 96.  The wrapped module is an object of the IREE runtime; all the class
  does with it is \<open>self._iree_module[function_name]\<close>, so it is modelled by that
  lookup: a name gives a function, or the lookup raises.
\<close>

record ('a, 'r) IREEInvoker =
  iree_module :: "string \<Rightarrow> py_exception + ('a, 'r) callable"

text \<open>The closure \<open>invoke\<close> of line 94, for a given \<open>self\<close> and \<open>function_name\<close>.\<close>

definition invoke :: "('a, 'r) IREEInvoker \<Rightarrow> string \<Rightarrow> ('a, 'r) callable" where
  "invoke self function_name args =
     (case iree_module self function_name of
        Inl e \<Rightarrow> (Inl e, args)
      | Inr f \<Rightarrow> f args)"

definition IREEInvoker_getattr ::
    "('a, 'r) IREEInvoker \<Rightarrow> string \<Rightarrow> py_exception + ('a, 'r) callable" where
  "IREEInvoker_getattr self function_name = Inr (invoke self function_name)"

subsection \<open>IREELinalgOnTensorsBackend\<close>

text \<open>
  The compiler \<open>iree.compiler\<close> and the runtime \<open>iree.runtime\<close> are libraries; the
  calls the backend makes to them are the fields of this record.  \<open>add_vm_module\<close>
  changes the context, so it returns the changed context; \<open>modules_module\<close> is the
  attribute access \<open>ctx.modules.module\<close>.
\<close>

record ('m, 'fb, 'vm, 'cfg, 'ctx, 'a, 'r) iree =
  module_str :: "'m \<Rightarrow> string"
  compile_str :: "string \<Rightarrow> string list \<Rightarrow> py_exception + 'fb"
  from_flatbuffer :: "'fb \<Rightarrow> py_exception + 'vm"
  Config :: "string \<Rightarrow> py_exception + 'cfg"
  SystemContext :: "'cfg \<Rightarrow> py_exception + 'ctx"
  add_vm_module :: "'ctx \<Rightarrow> 'vm \<Rightarrow> py_exception + 'ctx"
  modules_module :: "'ctx \<Rightarrow> py_exception + (string \<Rightarrow> py_exception + ('a, 'r) callable)"

text \<open>Lines 104 to 118.\<close>

definition compile ::
    "('m, 'fb, 'vm, 'cfg, 'ctx, 'a, 'r) iree \<Rightarrow> 'm \<Rightarrow> py_exception + 'fb" where
  "compile lib imported_module =
     compile_str lib (module_str lib imported_module) [''dylib-llvm-aot'']"

text \<open>Lines 120 to 126.\<close>

definition load ::
    "('m, 'fb, 'vm, 'cfg, 'ctx, 'a, 'r) iree \<Rightarrow> 'fb \<Rightarrow> py_exception + ('a, 'r) IREEInvoker" where
  "load lib flatbuffer =
     (case from_flatbuffer lib flatbuffer of
        Inl e \<Rightarrow> Inl e
      | Inr vm_module \<Rightarrow>
          (case Config lib ''dylib'' of
             Inl e \<Rightarrow> Inl e
           | Inr config \<Rightarrow>
               (case SystemContext lib config of
                  Inl e \<Rightarrow> Inl e
                | Inr ctx \<Rightarrow>
                    (case add_vm_module lib ctx vm_module of
                       Inl e \<Rightarrow> Inl e
                     | Inr ctx' \<Rightarrow>
                         (case modules_module lib ctx' of
                            Inl e \<Rightarrow> Inl e
                          | Inr m \<Rightarrow> Inr \<lparr>iree_module = m\<rparr>)))))"

text \<open>Lines 164 and 165 of the script: compile, then load what was compiled.\<close>

definition compile_and_load ::
    "('m, 'fb, 'vm, 'cfg, 'ctx, 'a, 'r) iree \<Rightarrow> 'm \<Rightarrow> py_exception + ('a, 'r) IREEInvoker" where
  "compile_and_load lib imported_module =
     (case compile lib imported_module of
        Inl e \<Rightarrow> Inl e
      | Inr compiled \<Rightarrow> load lib compiled)"

subsection \<open>The module-level script\<close>


text \<open>
  Lines 128 to 167.  The image loader and the label loader fetch over the network, and
  lines 137 to 162 (scripting the module, annotating it, importing it and running the
  lowering passes) are calls into torch and torch-mlir that never mention \<open>img\<close>:
  each is a parameter that returns its value or raises.  \<open>jit_module.forward\<close> is an
  attribute access on the invoker, so it goes through \<open>__getattr__\<close>.
\<close>



section \<open>The end-to-end run of the spec\<close>


section \<open>Properties of compare\_results\<close>

lemmas tflite_defs = compare_results_def closeness_assertion_def getitem_def isclose_def
  broadcast2_def within_tol_def rtol_default_def ndarray_all_def assertTrue_def

lemma assertTrue_passes_iff: "assertTrue c = Inr () \<longleftrightarrow> c"
  by (simp add: assertTrue_def)

lemma closeness_assertion_equal_length:
  "length a = length b \<Longrightarrow>
   closeness_assertion atol (a # as) (b # bs) =
     assertTrue (\<forall>i<length a. \<bar>a ! i - b ! i\<bar> \<le> atol + rtol_default * \<bar>b ! i\<bar>)"
  by (auto simp: closeness_assertion_def getitem_def isclose_def broadcast2_def within_tol_def
      ndarray_all_def list_all_length assertTrue_def)

lemma within_tol_mono: "within_tol r eps x y \<Longrightarrow> eps \<le> eps' \<Longrightarrow> within_tol r eps' x y"
  by (simp add: within_tol_def)

lemma isclose_all_mono:
  assumes "isclose a b r eps = Inr m" and "ndarray_all m" and "eps \<le> eps'"
  shows "\<exists>m'. isclose a b r eps' = Inr m' \<and> ndarray_all m'"
proof (cases "broadcast2 a b")
  case (Inl e)
  with assms(1) show ?thesis by (simp add: isclose_def)
next
  case (Inr ps)
  with assms(1) have m: "m = map (\<lambda>(x, y). within_tol r eps x y) ps"
    by (simp add: isclose_def)
  have "\<forall>p\<in>set ps. within_tol r eps' (fst p) (snd p)"
  proof
    fix p assume "p \<in> set ps"
    with assms(2) m have "within_tol r eps (fst p) (snd p)"
      by (auto simp: ndarray_all_def list_all_iff)
    then show "within_tol r eps' (fst p) (snd p)" using assms(3) by (rule within_tol_mono)
  qed
  then have "ndarray_all (map (\<lambda>(x, y). within_tol r eps' x y) ps)"
    by (auto simp: ndarray_all_def list_all_iff)
  with Inr show ?thesis by (simp add: isclose_def)
qed

text \<open>
  C1, as amended.  The claim says that the comparison passes exactly when the largest
  absolute deviation is at most \<open>1e-4\<close>, with no relative component.  The code calls
  \<open>numpy.isclose\<close> with \<open>atol=1e-4\<close> and leaves \<open>rtol\<close> at its default \<open>1e-5\<close>, and it
  looks at the first result only.  What holds: for first results of equal length,
  \<open>compare_results\<close> returns normally exactly when the superclass check returns
  normally and every element of the first result pair satisfies
  \<open>|iree - tflite| \<le> 1e-4 + 1e-5 * |tflite|\<close>.
\<close>

theorem compare_results_iff_isclose:
  "length a = length b \<Longrightarrow>
   compare_results super (a # as) (b # bs) d = Inr () \<longleftrightarrow>
     super (a # as) (b # bs) d = Inr () \<and>
     (\<forall>i<length a. \<bar>a ! i - b ! i\<bar> \<le> 1 / 10 ^ 4 + 1 / 10 ^ 5 * \<bar>b ! i\<bar>)"
  by (cases "super (a # as) (b # bs) d")
     (simp_all add: compare_results_def closeness_assertion_equal_length assertTrue_passes_iff
        rtol_default_def)

theorem compare_results_iff_isclose_witness:
  "compare_results (\<lambda>_ _ _. Inr ()) [[0.5, 2], [7]] [[0.50005, 2], [9]] () = Inr ()"
  using compare_results_iff_isclose
    [of "[0.5, 2]" "[0.50005, 2]" "\<lambda>_ _ _. Inr ()" "[[7]]" "[[9]]" "()"]
  by (simp add: less_Suc_eq)

text \<open>
  C1 as stated fails: the candidate \<open>[1000.005]\<close> against the baseline \<open>[1000]\<close> deviates
  by \<open>0.005 > 1e-4\<close>, and the comparison passes, because \<open>1e-4 + 1e-5 * 1000 = 0.0101\<close>.
\<close>

theorem compare_results_absolute_only_counterexample:
  "compare_results (\<lambda>_ _ _. Inr ()) [[1000.005]] [[1000]] () = Inr () \<and>
   \<not> max_abs_deviation [1000.005] [1000] \<le> 1 / 10 ^ 4"
  by (simp add: tflite_defs max_abs_deviation_def)



text \<open>
  C4.  Tolerance monotonicity of the closeness assertion of line 15, read as a function
  of its \<open>atol\<close> argument: if it passes at \<open>eps\<close>, it passes at every \<open>eps' \<ge> eps\<close> on the
  same results.  (The superclass check takes no tolerance.)
\<close>

theorem closeness_assertion_tolerance_monotone:
  assumes "closeness_assertion eps iree_results tflite_results = Inr ()" and "eps \<le> eps'"
  shows "closeness_assertion eps' iree_results tflite_results = Inr ()"
proof -
  from assms(1) obtain a b m where
    a: "getitem iree_results 0 = Inr a" and b: "getitem tflite_results 0 = Inr b" and
    m: "isclose a b rtol_default eps = Inr m" and p: "ndarray_all m"
    by (simp add: closeness_assertion_def assertTrue_passes_iff split: sum.splits)
  from isclose_all_mono [OF m p assms(2)] obtain m' where
    "isclose a b rtol_default eps' = Inr m'" and "ndarray_all m'" by blast
  with a b show ?thesis
    by (simp add: closeness_assertion_def assertTrue_passes_iff)
qed

theorem closeness_assertion_tolerance_monotone_witness:
  "closeness_assertion (1 / 10 ^ 4) [[0.70005]] [[0.7]] = Inr () \<and>
   closeness_assertion (1 / 10 ^ 2) [[0.70005]] [[0.7]] = Inr ()"
proof -
  have p: "closeness_assertion (1 / 10 ^ 4) [[0.70005]] [[0.7]] = Inr ()"
    by (simp add: tflite_defs)
  have "(1 / 10 ^ 4 :: real) \<le> 1 / 10 ^ 2" by simp
  with p closeness_assertion_tolerance_monotone show ?thesis by blast
qed

text \<open>
  C7, as amended.  The claim says that a divergence is reported as a record holding
  the verdict, the maximum deviation and the offending index.  The code has no such
  record: when the superclass check passes and some element of the first result pair
  is outside the tolerance, \<open>compare_results\<close> raises the AssertionError of
  \<open>assertTrue\<close>, whose message is the fixed text \<open>False is not true\<close>.
\<close>

theorem compare_results_mismatch_assertion:
  assumes "length a = length b" and "super (a # as) (b # bs) d = Inr ()"
    and "i < length a" and "\<not> \<bar>a ! i - b ! i\<bar> \<le> 1 / 10 ^ 4 + 1 / 10 ^ 5 * \<bar>b ! i\<bar>"
  shows "compare_results super (a # as) (b # bs) d = Inl (AssertionError ''False is not true'')"
  using assms
  by (auto simp: compare_results_def closeness_assertion_equal_length assertTrue_def
      rtol_default_def)

theorem compare_results_mismatch_assertion_witness:
  "compare_results (\<lambda>_ _ _. Inr ()) [[0, 5]] [[0, 0]] () =
     Inl (AssertionError ''False is not true'')"
  using compare_results_mismatch_assertion
    [of "[0, 5]" "[0, 0]" "\<lambda>_ _ _. Inr ()" "[]" "[]" "()" 1]
  by simp

text \<open>
  C7 as stated fails: two divergences with different maximum deviations (1 and 5) at
  different indices (0 and 1) give the very same outcome, so the outcome carries
  neither the deviation nor the index.
\<close>

theorem compare_results_no_diagnostics_counterexample:
  "compare_results (\<lambda>_ _ _. Inr ()) [[1, 0]] [[0, 0]] () =
     Inl (AssertionError ''False is not true'') \<and>
   compare_results (\<lambda>_ _ _. Inr ()) [[0, 5]] [[0, 0]] () =
     Inl (AssertionError ''False is not true'') \<and>
   max_abs_deviation [1, 0] [0, 0] = 1 \<and> max_abs_deviation [0, 5] [0, 0] = 5"
  by (simp add: tflite_defs max_abs_deviation_def)

text \<open>
  C10.  The closeness assertion of the subclass reads only index 0 of each result
  list: replacing everything after the first element of either list, by anything,
  leaves its outcome unchanged.
\<close>

theorem closeness_assertion_first_only:
  "closeness_assertion atol (a # as) (b # bs) = closeness_assertion atol (a # as') (b # bs')"
  by (simp add: closeness_assertion_def getitem_def)

theorem closeness_assertion_first_only_witness:
  "closeness_assertion (1 / 10 ^ 4) [[1], [5]] [[1], [900]] = Inr ()"
proof -
  have "closeness_assertion (1 / 10 ^ 4) [[1]] [[1]] = Inr ()"
    by (simp add: tflite_defs)
  with closeness_assertion_first_only [of "1 / 10 ^ 4" "[1]" "[[5]]" "[1]" "[[900]]" "[]" "[]"]
  show ?thesis by simp
qed

section \<open>Properties of top3\_possibilities and predictions\<close>

lemma set_argsort_descending: "set (argsort_descending row) = {..<length row}"
  by (auto simp: argsort_descending_def)

lemma comprehension_map:
  "(\<And>x. x \<in> set xs \<Longrightarrow> f x = Inr (g x)) \<Longrightarrow> comprehension f xs = Inr (map g xs)"
  by (induction xs) simp_all

lemma top3_possibilities_first_row:
  assumes "length row \<le> length labels"
  shows "top3_possibilities labels (row # rest) =
           Inr (map (\<lambda>idx. (labels ! idx, softmax row ! idx * 100))
                  (take 3 (argsort_descending row)))"
proof -
  have "comprehension
          (\<lambda>idx. case getitem labels idx of
                   Inl e \<Rightarrow> Inl e
                 | Inr l \<Rightarrow>
                     (case getitem (map (\<lambda>v. v * 100) (softmax row)) idx of
                        Inl e \<Rightarrow> Inl e
                      | Inr v \<Rightarrow> Inr (l, v)))
          (take 3 (argsort_descending row)) =
        Inr (map (\<lambda>idx. (labels ! idx, softmax row ! idx * 100))
               (take 3 (argsort_descending row)))"
  proof (rule comprehension_map)
    fix x assume "x \<in> set (take 3 (argsort_descending row))"
    then have "x \<in> set (argsort_descending row)" by (rule in_set_takeD)
    then have "x < length row" by (simp add: set_argsort_descending)
    with assms show "(case getitem labels x of
                   Inl e \<Rightarrow> Inl e
                 | Inr l \<Rightarrow>
                     (case getitem (map (\<lambda>v. v * 100) (softmax row)) x of
                        Inl e \<Rightarrow> Inl e
                      | Inr v \<Rightarrow> Inr (l, v))) = Inr (labels ! x, softmax row ! x * 100)"
      by (simp add: getitem_def softmax_def)
  qed
  then show ?thesis
    by (simp add: top3_possibilities_def getitem_def)
qed

text \<open>
  C3, as amended.  The claim says that the harness compares the index sets of the
  three highest scores of baseline and candidate and declares a failure when they
  differ.  The code compares nothing: when both inference functions return a
  two-dimensional output whose first row is no longer than the label list,
  \<open>predictions\<close> returns normally, having printed for each the labels and softmax
  percentages of the first three indices of the descending sort of that row, whatever
  the two lists are.
\<close>

theorem predictions_prints_both_top3:
  assumes "torch_func img = (Inr (row1 # rest1), img1)"
    and "jit_func img1 = (Inr (row2 # rest2), img2)"
    and "length row1 \<le> length global_labels" and "length row2 \<le> length global_labels"
  shows "predictions global_labels torch_func jit_func img labels io0 =
           (Inr (), img2,
            io0\<lparr>stdout := stdout io0 @
                   [Line ''PyTorch prediction'',
                    Top3 (map (\<lambda>idx. (global_labels ! idx, softmax row1 ! idx * 100))
                           (take 3 (argsort_descending row1))),
                    Line ''torch-mlir prediction'',
                    Top3 (map (\<lambda>idx. (global_labels ! idx, softmax row2 ! idx * 100))
                           (take 3 (argsort_descending row2)))],
                 trace := trace io0 @ [Call_torch_func img, Call_jit_func img1]\<rparr>)"
  using assms by (simp add: predictions_def top3_possibilities_first_row)

theorem predictions_prints_both_top3_witness:
  "fst (predictions [''a'', ''b'', ''c'', ''d'']
          (\<lambda>i. (Inr [[4, 3, 1, 2]], i)) (\<lambda>i. (Inr [[4, 3, 2, 1]], i))
          () [] \<lparr>stdout = [], stderr = [], trace = []\<rparr>) = Inr () \<and>
   map (\<lambda>p. case p of Line l \<Rightarrow> [] | Top3 t \<Rightarrow> map fst t)
     (stdout (snd (snd (predictions [''a'', ''b'', ''c'', ''d'']
          (\<lambda>i. (Inr [[4, 3, 1, 2]], i)) (\<lambda>i. (Inr [[4, 3, 2, 1]], i))
          () [] \<lparr>stdout = [], stderr = [], trace = []\<rparr>)))) =
     [[], [''a'', ''b'', ''d''], [], [''a'', ''b'', ''c'']]"
proof -
  have a: "argsort_descending [4, 3, 1, 2] = [0, 1, 3, 2]"
    by (simp add: argsort_descending_def upt_conv_Cons)
  have b: "argsort_descending [4, 3, 2, 1] = [0, 1, 2, 3]"
    by (simp add: argsort_descending_def upt_conv_Cons)
  from predictions_prints_both_top3
    [of "\<lambda>i. (Inr [[4, 3, 1, 2]], i)" "()" "[4, 3, 1, 2]" "[]" "()"
        "\<lambda>i. (Inr [[4, 3, 2, 1]], i)" "[4, 3, 2, 1]" "[]" "()"
        "[''a'', ''b'', ''c'', ''d'']" "[]" "\<lparr>stdout = [], stderr = [], trace = []\<rparr>"]
  show ?thesis by (simp add: a b)
qed

text \<open>
  C3 as stated fails: the baseline ranks indices 0, 1, 3 highest and the candidate
  0, 1, 2 (all scores within \<open>1e-5\<close> of each other), and \<open>predictions\<close> returns normally.
\<close>

theorem predictions_no_ranking_check_counterexample:
  "set (take 3 (argsort_descending [0.4, 0.3, 0.2, 0.20001])) \<noteq>
     set (take 3 (argsort_descending [0.4, 0.3, 0.20001, 0.2])) \<and>
   fst (predictions [''a'', ''b'', ''c'', ''d'']
          (\<lambda>i. (Inr [[0.4, 0.3, 0.2, 0.20001]], i)) (\<lambda>i. (Inr [[0.4, 0.3, 0.20001, 0.2]], i))
          () [] \<lparr>stdout = [], stderr = [], trace = []\<rparr>) = Inr ()"
proof -
  have a: "argsort_descending [0.4, 0.3, 0.2, 0.20001] = [0, 1, 3, 2]"
    by (simp add: argsort_descending_def upt_conv_Cons)
  have b: "argsort_descending [0.4, 0.3, 0.20001, 0.2] = [0, 1, 2, 3]"
    by (simp add: argsort_descending_def upt_conv_Cons)
  have "(3::nat) \<in> set (take 3 [0, 1, 3, 2])" and "(3::nat) \<notin> set (take 3 [0, 1, 2, 3])"
    by (simp_all add: take_Suc_conv_app_nth numeral_3_eq_3)
  then have "set (take 3 [0, 1, 3, 2::nat]) \<noteq> set (take 3 [0, 1, 2, 3])"
    by metis
  moreover have "fst (predictions [''a'', ''b'', ''c'', ''d'']
          (\<lambda>i. (Inr [[0.4, 0.3, 0.2, 0.20001]], i)) (\<lambda>i. (Inr [[0.4, 0.3, 0.20001, 0.2]], i))
          () [] \<lparr>stdout = [], stderr = [], trace = []\<rparr>) = Inr ()"
    by (simp add: predictions_def top3_possibilities_def getitem_def argsort_descending_def
        upt_conv_Cons softmax_def Let_def)
  ultimately show ?thesis unfolding a b by (rule conjI)
qed





section \<open>Properties of the backend and the invoker\<close>

lemma load_failure_modes:
  "load lib fb = Inl e \<longleftrightarrow>
     from_flatbuffer lib fb = Inl e \<or>
     (\<exists>vm. from_flatbuffer lib fb = Inr vm \<and>
        (Config lib ''dylib'' = Inl e \<or>
         (\<exists>cfg. Config lib ''dylib'' = Inr cfg \<and>
            (SystemContext lib cfg = Inl e \<or>
             (\<exists>ctx. SystemContext lib cfg = Inr ctx \<and>
                (add_vm_module lib ctx vm = Inl e \<or>
                 (\<exists>ctx'. add_vm_module lib ctx vm = Inr ctx' \<and>
                    modules_module lib ctx' = Inl e)))))))"
  unfolding load_def by (simp split: sum.splits)

text \<open>
  C6, as amended.  The claim names two error classes, CompilationError and LoadError.
  The code defines neither and catches nothing: \<open>compile\<close> followed by \<open>load\<close> fails
  with exactly the exception that the compiler call or the first failing of the five
  runtime calls of \<open>load\<close> raised, and in no other case.
\<close>

theorem compile_and_load_failure_modes:
  "compile_and_load lib m = Inl e \<longleftrightarrow>
     compile_str lib (module_str lib m) [''dylib-llvm-aot''] = Inl e \<or>
     (\<exists>fb. compile_str lib (module_str lib m) [''dylib-llvm-aot''] = Inr fb \<and>
        (from_flatbuffer lib fb = Inl e \<or>
         (\<exists>vm. from_flatbuffer lib fb = Inr vm \<and>
            (Config lib ''dylib'' = Inl e \<or>
             (\<exists>cfg. Config lib ''dylib'' = Inr cfg \<and>
                (SystemContext lib cfg = Inl e \<or>
                 (\<exists>ctx. SystemContext lib cfg = Inr ctx \<and>
                    (add_vm_module lib ctx vm = Inl e \<or>
                     (\<exists>ctx'. add_vm_module lib ctx vm = Inr ctx' \<and>
                        modules_module lib ctx' = Inl e)))))))))"
proof (cases "compile_str lib (module_str lib m) [''dylib-llvm-aot'']")
  case (Inl e')
  then show ?thesis by (simp add: compile_and_load_def compile_def)
next
  case (Inr fb)
  then show ?thesis by (simp add: compile_and_load_def compile_def load_failure_modes)
qed

theorem compile_and_load_failure_modes_witness:
  "compile_and_load
     \<lparr>module_str = (\<lambda>m. m), compile_str = (\<lambda>s ts. Inr s),
       from_flatbuffer = (\<lambda>fb. Inl (External ''ValueError'')),
       Config = (\<lambda>d. Inr d), SystemContext = (\<lambda>c. Inr c),
       add_vm_module = (\<lambda>ctx vm. Inr ctx),
       modules_module = (\<lambda>ctx. Inr (\<lambda>n. Inl (External ''KeyError'')))\<rparr>
     ''module'' =
     (Inl (External ''ValueError'') :: py_exception + (unit, unit) IREEInvoker)"
  using compile_and_load_failure_modes
    [of "\<lparr>module_str = (\<lambda>m. m), compile_str = (\<lambda>s ts. Inr s),
       from_flatbuffer = (\<lambda>fb. Inl (External ''ValueError'')),
       Config = (\<lambda>d. Inr d), SystemContext = (\<lambda>c. Inr c),
       add_vm_module = (\<lambda>ctx vm. Inr ctx),
       modules_module = (\<lambda>ctx. Inr (\<lambda>n. Inl (External ''KeyError'')))\<rparr>"
       "''module''" "External ''ValueError''"]
  by simp

text \<open>
  C6 as stated fails.  In the first library the compiled bytes are instantiated
  (\<open>from_flatbuffer\<close> returns) and the load still fails, in the driver configuration;
  in the second the compiler fails.  Both runs end with the same exception, so the
  failure does not tell a compilation error from a load error.
\<close>

theorem compile_and_load_no_error_classes_counterexample:
  "compile_and_load
     \<lparr>module_str = (\<lambda>m. m), compile_str = (\<lambda>s ts. Inr s), from_flatbuffer = (\<lambda>fb. Inr fb),
       Config = (\<lambda>d. Inl (External ''RuntimeError'')), SystemContext = (\<lambda>c. Inr c),
       add_vm_module = (\<lambda>ctx vm. Inr ctx),
       modules_module = (\<lambda>ctx. Inr (\<lambda>n. Inl (External ''KeyError'')))\<rparr>
     ''module'' =
     (Inl (External ''RuntimeError'') :: py_exception + (unit, unit) IREEInvoker) \<and>
   compile_and_load
     \<lparr>module_str = (\<lambda>m. m), compile_str = (\<lambda>s ts. Inl (External ''RuntimeError'')),
       from_flatbuffer = (\<lambda>fb. Inr fb),
       Config = (\<lambda>d. Inr d), SystemContext = (\<lambda>c. Inr c),
       add_vm_module = (\<lambda>ctx vm. Inr ctx),
       modules_module = (\<lambda>ctx. Inr (\<lambda>n. Inl (External ''KeyError'')))\<rparr>
     ''module'' =
     (Inl (External ''RuntimeError'') :: py_exception + (unit, unit) IREEInvoker)"
  by (simp add: compile_and_load_def compile_def load_def)

text \<open>
  C9.  \<open>IREEInvoker.__getattr__\<close> returns a callable for every name and never raises;
  when the module has no entry point of that name (the lookup raises \<open>e\<close>), it is the
  call of the returned callable that raises \<open>e\<close>, leaving the arguments untouched.
\<close>

theorem getattr_never_raises:
  "(\<exists>f. IREEInvoker_getattr self function_name = Inr f) \<and>
   (\<forall>f e. IREEInvoker_getattr self function_name = Inr f \<longrightarrow>
      iree_module self function_name = Inl e \<longrightarrow> f args = (Inl e, args))"
  by (simp add: IREEInvoker_getattr_def invoke_def)

theorem getattr_never_raises_witness:
  "(\<exists>f. IREEInvoker_getattr
          \<lparr>iree_module = (\<lambda>n. if n = ''forward'' then Inr (\<lambda>x. (Inr [[x]], x))
                               else Inl (External ''KeyError''))\<rparr> ''backward'' =
        Inr f \<and> f (1::real) = (Inl (External ''KeyError''), 1))"
proof -
  let ?self = "\<lparr>iree_module = (\<lambda>n. if n = ''forward'' then Inr (\<lambda>x::real. (Inr [[x]], x))
                               else Inl (External ''KeyError''))\<rparr>"
  have l: "iree_module ?self ''backward'' = Inl (External ''KeyError'')" by simp
  from getattr_never_raises [of ?self "''backward''" 1]
  obtain f where f: "IREEInvoker_getattr ?self ''backward'' = Inr f"
    and "\<forall>f e. IREEInvoker_getattr ?self ''backward'' = Inr f \<longrightarrow>
      iree_module ?self ''backward'' = Inl e \<longrightarrow> f 1 = (Inl e, 1)" by blast
  with l have "f 1 = (Inl (External ''KeyError''), 1)" by blast
  with f show ?thesis by blast
qed

section \<open>Determinism of the end-to-end run\<close>



end
